theory Spec2Isabelle
  imports Main "HOL-Library.AList"
begin

section \<open>Values read from the YAML configuration\<close>

text \<open>
  \<^verbatim>\<open>yaml_utils.read_yaml\<close> returns plain Python data. The scalars modelled are
  \<^verbatim>\<open>None\<close>, booleans, integers and strings; sequences are lists and mappings are
  association lists in insertion order, with keys of any of these kinds. A Python
  \<^verbatim>\<open>dict\<close> has no two equal keys, so the association lists that stand for one have
  distinct keys. A value of any other type (a float, a date, bytes, a set) is \<open>YOther\<close>
  with its \<^verbatim>\<open>repr\<close> and its truthiness: the command only tests such a value for
  truth and for being a string or a mapping.
\<close>

datatype yaml =
    YNone
  | YBool bool
  | YInt int
  | YStr string
  | YList "yaml list"
  | YDict "(yaml \<times> yaml) list"
  | YOther string bool

text \<open>Python truthiness, as tested by \<^verbatim>\<open>if materializers_config:\<close>.\<close>

fun truthy :: "yaml \<Rightarrow> bool" where
  "truthy YNone = False"
| "truthy (YBool b) = b"
| "truthy (YInt i) = (i \<noteq> 0)"
| "truthy (YStr s) = (s \<noteq> [])"
| "truthy (YList xs) = (xs \<noteq> [])"
| "truthy (YDict kvs) = (kvs \<noteq> [])"
| "truthy (YOther r t) = t"

fun is_str :: "yaml \<Rightarrow> bool" where
  "is_str (YStr s) = True"
| "is_str v = False"


fun str_of :: "yaml \<Rightarrow> string" where
  "str_of (YStr s) = s"
| "str_of v = []"

section \<open>Errors\<close>

text \<open>
  The two messages with which \<^verbatim>\<open>pipeline.py\<close> raises
  \<^verbatim>\<open>PipelineConfigurationError\<close>: \<^verbatim>\<open>Unable to load '{attribute_name}' from file
  '{module.__file__}'\<close> keeps the attribute name and the file, and \<^verbatim>\<open>Only `str` and
  `dict` values are allowed for 'materializers' ...\<close> keeps the offending value.
\<close>

datatype pce_message =
    UnableToLoad string string
  | MaterializersNotStrOrDict yaml

text \<open>
  The exceptions. \<open>KeyError\<close>, \<open>TypeError\<close>, \<open>AttributeError\<close> and \<open>OverflowError\<close> are
  raised by Python itself: on subscripting, on \<^verbatim>\<open>getattr\<close> with a name that is not a
  string and on \<^verbatim>\<open>**\<close> with a key that is not a string, on calling \<^verbatim>\<open>.items()\<close> or
  \<^verbatim>\<open>.get()\<close> on a value without that method, and on a date out of range.
  \<open>ClickException\<close> is what \<^verbatim>\<open>cli_utils.error\<close> ends a command with. \<open>Raised\<close> stands
  for any other exception, by its name. The code outside this file (key checks, classes
  of the user's module, the pipeline, the repository) may raise any of them.
\<close>

datatype error =
    KeyError string
  | TypeError
  | AttributeError
  | OverflowError
  | PipelineConfigurationError pce_message
  | ClickException string
  | Raised string

section \<open>The imported module and the objects built from it\<close>

text \<open>
  A module is its \<^verbatim>\<open>__file__\<close> and what \<^verbatim>\<open>getattr\<close> finds under each name;
  \<open>None\<close> is \<^verbatim>\<open>AttributeError\<close>. The attribute values are of an arbitrary type.
\<close>

record 'v module =
  module_file :: string
  attrs :: "string \<rightharpoonup> 'v"

text \<open>
  The value handed to \<^verbatim>\<open>with_return_materializers\<close>: one module attribute, or a
  dictionary from output names to module attributes.
\<close>

datatype 'v materializers =
    Single 'v
  | PerOutput "(yaml \<times> 'v) list"

text \<open>
  The objects the collaborators return are kept symbolic: \<open>Instance c\<close> is what
  \<^verbatim>\<open>c()\<close> returned, \<open>Materialized s m\<close> what \<^verbatim>\<open>s.with_return_materializers(m)\<close>
  returned, \<open>PipelineInstance c kw\<close> what \<^verbatim>\<open>c(**kw)\<close> returned and
  \<open>Configured p path b\<close> what
  \<^verbatim>\<open>p.with_config(path, overwrite_step_parameters=b)\<close> returned.
\<close>

datatype 'v step =
    Instance 'v
  | Materialized "'v step" "'v materializers"

fun step_class_of :: "'v step \<Rightarrow> 'v" where
  "step_class_of (Instance c) = c"
| "step_class_of (Materialized s m) = step_class_of s"

datatype 'v pipeline =
    PipelineInstance 'v "(string \<times> 'v step) list"
  | Configured "'v pipeline" string bool

record schedule =
  start_time :: int
  end_time :: int
  interval_second :: int

text \<open>
  The calls made on the collaborators, in the order they are made. A call is recorded
  when it is made, whether it returns or raises.
\<close>

datatype 'v event =
    ImportPythonFile string
  | ReadYaml string
  | PipelineKeyCheck yaml
  | StepKeyCheck yaml
  | StepInit 'v
  | WithReturnMaterializers "'v step" "'v materializers"
  | PipelineInit 'v "(string \<times> 'v step) list"
  | WithConfig "'v pipeline" string bool
  | LoggerDebug yaml
  | ScheduleInit schedule
  | Run "'v pipeline" "schedule option"

fun is_pipeline_init :: "'v event \<Rightarrow> bool" where
  "is_pipeline_init (PipelineInit c kw) = True"
| "is_pipeline_init e = False"

fun is_run :: "'v event \<Rightarrow> bool" where
  "is_run (Run p s) = True"
| "is_run e = False"


section \<open>Python dictionary operations on configuration values\<close>

text \<open>
  \<^verbatim>\<open>d[k]\<close> for a string \<open>k\<close>: \<^verbatim>\<open>KeyError\<close> on a missing key, \<^verbatim>\<open>TypeError\<close> when
  \<open>d\<close> is no mapping.
\<close>

fun getitem :: "yaml \<Rightarrow> string \<Rightarrow> error + yaml" where
  "getitem (YDict kvs) k =
     (case map_of kvs (YStr k) of None \<Rightarrow> Inl (KeyError k) | Some v \<Rightarrow> Inr v)"
| "getitem d k = Inl TypeError"

text \<open>\<^verbatim>\<open>d.items()\<close>.\<close>

fun items :: "yaml \<Rightarrow> error + (yaml \<times> yaml) list" where
  "items (YDict kvs) = Inr kvs"
| "items d = Inl AttributeError"

text \<open>\<^verbatim>\<open>d.get(k, None)\<close> for a string \<open>k\<close>.\<close>

fun get_or_none :: "yaml \<Rightarrow> string \<Rightarrow> error + yaml" where
  "get_or_none (YDict kvs) k =
     (case map_of kvs (YStr k) of None \<Rightarrow> Inr YNone | Some v \<Rightarrow> Inr v)"
| "get_or_none d k = Inl AttributeError"

text \<open>
  \<^verbatim>\<open>**steps\<close>: the keyword arguments of a call, \<^verbatim>\<open>TypeError\<close> when a key is not a
  string.
\<close>

definition keyword_arguments :: "(yaml \<times> 'a) list \<Rightarrow> error + (string \<times> 'a) list" where
  "keyword_arguments steps =
     (if list_all (\<lambda>kv. is_str (fst kv)) steps
      then Inr (map (\<lambda>kv. (str_of (fst kv), snd kv)) steps)
      else Inl TypeError)"

section \<open>Configuration keys\<close>

text \<open>
  Modelled from the spec: \<^verbatim>\<open>PipelineConfigurationKeys\<close> and
  \<^verbatim>\<open>StepConfigurationKeys\<close> live in \<^verbatim>\<open>zenml.config.config_keys\<close>, which is not part of
  the sources at hand. The key strings are the ones the specification uses: the
  configuration's 'name' and 'steps', a step's 'source' and 'materializers'.
\<close>

definition NAME :: string where "NAME = ''name''"
definition STEPS :: string where "STEPS = ''steps''"
definition SOURCE :: string where "SOURCE = ''source''"
definition MATERIALIZERS :: string where "MATERIALIZERS = ''materializers''"

text \<open>
  What \<^verbatim>\<open>run_pipeline\<close> calls outside \<^verbatim>\<open>pipeline.py\<close>. Each call either returns or
  raises: \<^verbatim>\<open>source_utils.import_python_file\<close> returns a module,
  \<^verbatim>\<open>yaml_utils.read_yaml\<close> the data of the file; the two \<^verbatim>\<open>key_check\<close> class
  methods, \<^verbatim>\<open>step_class()\<close>, \<^verbatim>\<open>with_return_materializers\<close>,
  \<^verbatim>\<open>pipeline_class(**steps)\<close>, \<^verbatim>\<open>with_config\<close> and \<^verbatim>\<open>run\<close> answer \<open>None\<close> when
  they return and \<open>Some e\<close> when they raise \<open>e\<close> (calling an attribute that is not
  callable raises \<^verbatim>\<open>TypeError\<close>). So does \<^verbatim>\<open>Schedule(...)\<close>, which only the example
  script calls. \<^verbatim>\<open>logger.debug\<close> is taken to return.
\<close>

record 'v env =
  import_python_file :: "string \<Rightarrow> error + 'v module"
  read_yaml :: "string \<Rightarrow> error + yaml"
  pipeline_key_check :: "yaml \<Rightarrow> error option"
  step_key_check :: "yaml \<Rightarrow> error option"
  init_step :: "'v \<Rightarrow> error option"
  with_return_materializers :: "'v step \<Rightarrow> 'v materializers \<Rightarrow> error option"
  init_pipeline :: "'v \<Rightarrow> (string \<times> 'v step) list \<Rightarrow> error option"
  with_config :: "'v pipeline \<Rightarrow> string \<Rightarrow> bool \<Rightarrow> error option"
  run :: "'v pipeline \<Rightarrow> schedule option \<Rightarrow> error option"
  init_schedule :: "schedule \<Rightarrow> error option"

section \<open>The run command\<close>

text \<open>
  \<^verbatim>\<open>_get_module_attribute\<close>. \<^verbatim>\<open>getattr\<close> raises \<^verbatim>\<open>AttributeError\<close> for a string
  that names no attribute, which the function turns into
  \<^verbatim>\<open>PipelineConfigurationError\<close>; for a name that is not a string \<^verbatim>\<open>getattr\<close>
  raises \<^verbatim>\<open>TypeError\<close>, which is not caught.
\<close>

fun get_module_attribute :: "'v module \<Rightarrow> yaml \<Rightarrow> error + 'v" where
  "get_module_attribute module (YStr attribute_name) =
     (case attrs module attribute_name of
        Some v \<Rightarrow> Inr v
      | None \<Rightarrow> Inl (PipelineConfigurationError
                      (UnableToLoad attribute_name (module_file module))))"
| "get_module_attribute module attribute_name = Inl TypeError"

text \<open>
  The dictionary comprehension of lines 105 to 108: the entries are visited in order,
  each value is looked up in the module, and the first failing lookup ends it.
\<close>

fun materializers_dict ::
  "'v module \<Rightarrow> (yaml \<times> yaml) list \<Rightarrow> (yaml \<times> 'v) list \<Rightarrow> error + (yaml \<times> 'v) list"
where
  "materializers_dict module [] acc = Inr acc"
| "materializers_dict module ((output_name, source) # rest) acc =
     (case get_module_attribute module source of
        Inl e \<Rightarrow> Inl e
      | Inr v \<Rightarrow> materializers_dict module rest (AList.update output_name v acc))"

text \<open>Lines 100 to 115: the value passed to \<^verbatim>\<open>with_return_materializers\<close>.\<close>

fun resolve_materializers :: "'v module \<Rightarrow> yaml \<Rightarrow> error + 'v materializers" where
  "resolve_materializers module (YStr s) =
     (case get_module_attribute module (YStr s) of
        Inl e \<Rightarrow> Inl e
      | Inr v \<Rightarrow> Inr (Single v))"
| "resolve_materializers module (YDict kvs) =
     (case materializers_dict module kvs [] of
        Inl e \<Rightarrow> Inl e
      | Inr vs \<Rightarrow> Inr (PerOutput vs))"
| "resolve_materializers module other =
     Inl (PipelineConfigurationError (MaterializersNotStrOrDict other))"

text \<open>
  The body of the loop over the steps (lines 89 to 118): the calls it makes and either
  the error it raises or the step instance it stores.
\<close>

definition build_step ::
  "'v env \<Rightarrow> 'v module \<Rightarrow> yaml \<Rightarrow> 'v event list \<times> (error + 'v step)"
where
  "build_step env module step_config =
     (case step_key_check env step_config of
        Some e \<Rightarrow> ([StepKeyCheck step_config], Inl e)
      | None \<Rightarrow>
     (case getitem step_config SOURCE of
        Inl e \<Rightarrow> ([StepKeyCheck step_config], Inl e)
      | Inr source \<Rightarrow>
     (case get_module_attribute module source of
        Inl e \<Rightarrow> ([StepKeyCheck step_config], Inl e)
      | Inr step_class \<Rightarrow>
     (case init_step env step_class of
        Some e \<Rightarrow> ([StepKeyCheck step_config, StepInit step_class], Inl e)
      | None \<Rightarrow>
     (case get_or_none step_config MATERIALIZERS of
        Inl e \<Rightarrow> ([StepKeyCheck step_config, StepInit step_class], Inl e)
      | Inr materializers_config \<Rightarrow>
          if truthy materializers_config then
            (case resolve_materializers module materializers_config of
               Inl e \<Rightarrow> ([StepKeyCheck step_config, StepInit step_class], Inl e)
             | Inr materializers \<Rightarrow>
                 ([StepKeyCheck step_config, StepInit step_class,
                   WithReturnMaterializers (Instance step_class) materializers],
                  case with_return_materializers env (Instance step_class) materializers of
                    Some e \<Rightarrow> Inl e
                  | None \<Rightarrow> Inr (Materialized (Instance step_class) materializers)))
          else ([StepKeyCheck step_config, StepInit step_class],
                Inr (Instance step_class)))))))"

text \<open>The loop of lines 86 to 120, with \<^verbatim>\<open>steps[step_name] = step_instance\<close>.\<close>

fun steps_loop ::
  "'v env \<Rightarrow> 'v module \<Rightarrow> (yaml \<times> yaml) list \<Rightarrow> (yaml \<times> 'v step) list
     \<Rightarrow> 'v event list \<times> (error + (yaml \<times> 'v step) list)"
where
  "steps_loop env module [] steps = ([], Inr steps)"
| "steps_loop env module ((step_name, step_config) # rest) steps =
     (case build_step env module step_config of
        (ev, Inl e) \<Rightarrow> (ev, Inl e)
      | (ev, Inr step_instance) \<Rightarrow>
          (case steps_loop env module rest (AList.update step_name step_instance steps) of
             (ev', r) \<Rightarrow> (ev @ ev', r)))"

text \<open>
  Lines 122 to 126: the pipeline is constructed from the steps, configured, and run.
\<close>

definition construct_and_run ::
  "'v env \<Rightarrow> 'v \<Rightarrow> yaml \<Rightarrow> (yaml \<times> 'v step) list \<Rightarrow> string
     \<Rightarrow> 'v event list \<times> (error + unit)"
where
  "construct_and_run env pipeline_class pipeline_name steps config_path =
     (case keyword_arguments steps of
        Inl e \<Rightarrow> ([], Inl e)
      | Inr kw \<Rightarrow>
     (case init_pipeline env pipeline_class kw of
        Some e \<Rightarrow> ([PipelineInit pipeline_class kw], Inl e)
      | None \<Rightarrow>
     (case with_config env (PipelineInstance pipeline_class kw) config_path True of
        Some e \<Rightarrow>
          ([PipelineInit pipeline_class kw,
            WithConfig (PipelineInstance pipeline_class kw) config_path True], Inl e)
      | None \<Rightarrow>
          ([PipelineInit pipeline_class kw,
            WithConfig (PipelineInstance pipeline_class kw) config_path True,
            LoggerDebug pipeline_name,
            Run (Configured (PipelineInstance pipeline_class kw) config_path True) None],
           case run env (Configured (PipelineInstance pipeline_class kw) config_path True) None of
             Some e \<Rightarrow> Inl e
           | None \<Rightarrow> Inr ()))))"

definition run_pipeline ::
  "'v env \<Rightarrow> string \<Rightarrow> string \<Rightarrow> 'v event list \<times> (error + unit)"
where
  "run_pipeline env python_file config_path =
     (case import_python_file env python_file of
        Inl e \<Rightarrow> ([ImportPythonFile python_file], Inl e)
      | Inr module \<Rightarrow>
     (case read_yaml env config_path of
        Inl e \<Rightarrow> ([ImportPythonFile python_file, ReadYaml config_path], Inl e)
      | Inr config \<Rightarrow>
     (let ev0 = [ImportPythonFile python_file, ReadYaml config_path, PipelineKeyCheck config]
      in case pipeline_key_check env config of
        Some e \<Rightarrow> (ev0, Inl e)
      | None \<Rightarrow>
     (case getitem config NAME of
        Inl e \<Rightarrow> (ev0, Inl e)
      | Inr pipeline_name \<Rightarrow>
     (case get_module_attribute module pipeline_name of
        Inl e \<Rightarrow> (ev0, Inl e)
      | Inr pipeline_class \<Rightarrow>
     (case getitem config STEPS of
        Inl e \<Rightarrow> (ev0, Inl e)
      | Inr steps_config \<Rightarrow>
     (case items steps_config of
        Inl e \<Rightarrow> (ev0, Inl e)
      | Inr entries \<Rightarrow>
     (case steps_loop env module entries [] of
        (ev1, Inl e) \<Rightarrow> (ev0 @ ev1, Inl e)
      | (ev1, Inr steps) \<Rightarrow>
          (case construct_and_run env pipeline_class pipeline_name steps config_path of
             (ev2, r) \<Rightarrow> (ev0 @ ev1 @ ev2, r))))))))))"

section \<open>The listing commands\<close>




















section \<open>The example script\<close>







section \<open>Reading a configuration\<close>

text \<open>
  The parts of a configuration the run command looks at, when they have the type the
  command goes on to use them with: the pipeline name and a step's source as strings,
  the steps as a mapping.
\<close>

definition config_name :: "yaml \<Rightarrow> string option" where
  "config_name config = (case getitem config NAME of Inr (YStr n) \<Rightarrow> Some n | _ \<Rightarrow> None)"

definition config_steps :: "yaml \<Rightarrow> (yaml \<times> yaml) list option" where
  "config_steps config =
     (case getitem config STEPS of Inr (YDict entries) \<Rightarrow> Some entries | _ \<Rightarrow> None)"

definition step_source :: "yaml \<Rightarrow> string option" where
  "step_source step_config =
     (case getitem step_config SOURCE of Inr (YStr s) \<Rightarrow> Some s | _ \<Rightarrow> None)"

definition step_materializers :: "yaml \<Rightarrow> yaml" where
  "step_materializers step_config =
     (case get_or_none step_config MATERIALIZERS of Inr v \<Rightarrow> v | Inl e \<Rightarrow> YNone)"

definition has_attr :: "'v module \<Rightarrow> string \<Rightarrow> bool" where
  "has_attr module n = (case attrs module n of None \<Rightarrow> False | Some v \<Rightarrow> True)"


text \<open>The class a step's source names in the module, if any.\<close>

definition step_class :: "'v module \<Rightarrow> yaml \<Rightarrow> 'v option" where
  "step_class module step_config =
     (case step_source step_config of None \<Rightarrow> None | Some s \<Rightarrow> attrs module s)"

text \<open>
  A configuration is well typed when it passes the key checks and holds a string at
  every place where the command expects a name, and a mapping where it iterates.
\<close>

fun well_typed_materializers :: "yaml \<Rightarrow> bool" where
  "well_typed_materializers (YDict kvs) = list_all (\<lambda>kv. is_str (snd kv)) kvs"
| "well_typed_materializers v = True"

definition well_typed_step :: "'v env \<Rightarrow> yaml \<Rightarrow> bool" where
  "well_typed_step env step_config \<longleftrightarrow>
     step_key_check env step_config = None \<and>
     (case step_source step_config of None \<Rightarrow> False | Some s \<Rightarrow> True) \<and>
     well_typed_materializers (step_materializers step_config)"

definition well_typed_config :: "'v env \<Rightarrow> yaml \<Rightarrow> bool" where
  "well_typed_config env config \<longleftrightarrow>
     pipeline_key_check env config = None \<and>
     (case config_name config of None \<Rightarrow> False | Some n \<Rightarrow> True) \<and>
     (case config_steps config of
        None \<Rightarrow> False
      | Some entries \<Rightarrow> list_all (\<lambda>kv. well_typed_step env (snd kv)) entries)"

text \<open>
  A configuration resolves in a module when it passes the key checks, its steps are a
  mapping with strings as keys (no two of them equal, as in every Python dictionary),
  every name in it names an attribute of the module and every materializers value is
  falsy, a string or a mapping.
\<close>

fun materializers_resolve :: "'v module \<Rightarrow> yaml \<Rightarrow> bool" where
  "materializers_resolve module (YStr s) = (s = [] \<or> has_attr module s)"
| "materializers_resolve module (YDict kvs) =
     list_all (\<lambda>kv. case snd kv of YStr s \<Rightarrow> has_attr module s | _ \<Rightarrow> False) kvs"
| "materializers_resolve module v = (\<not> truthy v)"

definition step_resolves :: "'v env \<Rightarrow> 'v module \<Rightarrow> yaml \<Rightarrow> bool" where
  "step_resolves env module step_config \<longleftrightarrow>
     step_key_check env step_config = None \<and>
     (case step_source step_config of None \<Rightarrow> False | Some s \<Rightarrow> has_attr module s) \<and>
     materializers_resolve module (step_materializers step_config)"

definition config_resolves :: "'v env \<Rightarrow> 'v module \<Rightarrow> yaml \<Rightarrow> bool" where
  "config_resolves env module config \<longleftrightarrow>
     pipeline_key_check env config = None \<and>
     (case config_name config of None \<Rightarrow> False | Some n \<Rightarrow> has_attr module n) \<and>
     (case config_steps config of
        None \<Rightarrow> False
      | Some entries \<Rightarrow>
          distinct (map fst entries) \<and>
          list_all (\<lambda>kv. is_str (fst kv)) entries \<and>
          list_all (\<lambda>kv. step_resolves env module (snd kv)) entries)"

text \<open>
  What the run command is said to build for one entry of the steps mapping: an instance of
  the class the source names, passed through \<^verbatim>\<open>with_return_materializers\<close> when the
  materializers value is truthy; and the keyword arguments made of all entries.
\<close>

definition expected_step :: "'v module \<Rightarrow> yaml \<Rightarrow> 'v step option" where
  "expected_step module step_config =
     (case step_class module step_config of
        None \<Rightarrow> None
      | Some c \<Rightarrow>
          if truthy (step_materializers step_config) then
            (case resolve_materializers module (step_materializers step_config) of
               Inl e \<Rightarrow> None
             | Inr ms \<Rightarrow> Some (Materialized (Instance c) ms))
          else Some (Instance c))"

definition expected_keywords ::
  "'v module \<Rightarrow> (yaml \<times> yaml) list \<Rightarrow> (string \<times> 'v step) list" where
  "expected_keywords module entries =
     map (\<lambda>kv. (str_of (fst kv), the (expected_step module (snd kv)))) entries"

text \<open>
  The calls a step makes on the user's code return: the class its source names can be
  called, and \<^verbatim>\<open>with_return_materializers\<close> returns when it is called.
\<close>

definition step_calls_return :: "'v env \<Rightarrow> 'v module \<Rightarrow> yaml \<Rightarrow> bool" where
  "step_calls_return env module step_config \<longleftrightarrow>
     (case step_class module step_config of
        None \<Rightarrow> True
      | Some c \<Rightarrow>
          init_step env c = None \<and>
          (case expected_step module step_config of
             Some (Materialized s ms) \<Rightarrow> with_return_materializers env s ms = None
           | _ \<Rightarrow> True))"


section \<open>Example inputs\<close>

text \<open>
  A key check to run the command with: it returns when the value is a mapping that holds
  every required key and no key outside the required and optional ones.
\<close>

fun example_key_check :: "string list \<Rightarrow> string list \<Rightarrow> yaml \<Rightarrow> error option" where
  "example_key_check required optional (YDict kvs) =
     (if list_all (\<lambda>k. YStr k \<in> set (map fst kvs)) required \<and>
         list_all (\<lambda>kv. fst kv \<in> set (map YStr (required @ optional))) kvs
      then None else Some (Raised ''AssertionError''))"
| "example_key_check required optional v = Some (Raised ''AssertionError'')"

text \<open>
  A module with a pipeline class, two step classes, a materializer class and, as every
  module has, its name, which is a string and cannot be called.
\<close>

definition example_module :: "string module" where
  "example_module =
     \<lparr>module_file = ''/home/user/pipelines.py'',
      attrs = map_of [(''my_pipeline'', ''class my_pipeline''),
                      (''importer'', ''class importer''),
                      (''trainer'', ''class trainer''),
                      (''my_materializer'', ''class my_materializer''),
                      (''__name__'', ''str pipelines'')]\<rparr>"

definition example_env :: "yaml \<Rightarrow> string env" where
  "example_env config =
     \<lparr>import_python_file = (\<lambda>path. Inr example_module),
      read_yaml = (\<lambda>path. Inr config),
      pipeline_key_check = example_key_check [''name'', ''steps''] [],
      step_key_check = example_key_check [] [''source'', ''parameters'', ''materializers''],
      init_step =
        (\<lambda>c. if c = ''class importer'' \<or> c = ''class trainer'' then None else Some TypeError),
      with_return_materializers = (\<lambda>s ms. None),
      init_pipeline = (\<lambda>c kw. if c = ''class my_pipeline'' then None else Some TypeError),
      with_config = (\<lambda>p path overwrite. None),
      run = (\<lambda>p sched. None),
      init_schedule = (\<lambda>sched. None)\<rparr>"

definition step_config_of :: "string \<Rightarrow> (yaml \<times> yaml) list \<Rightarrow> yaml" where
  "step_config_of source rest = YDict ((YStr ''source'', YStr source) # rest)"

definition config_of :: "string \<Rightarrow> (yaml \<times> yaml) list \<Rightarrow> yaml" where
  "config_of name steps = YDict [(YStr ''name'', YStr name), (YStr ''steps'', YDict steps)]"

text \<open>Step configurations for the example module, and configurations made of them.\<close>

definition step_plain :: yaml where
  "step_plain = step_config_of ''importer'' []"

definition step_str :: yaml where
  "step_str = step_config_of ''trainer'' [(YStr ''materializers'', YStr ''my_materializer'')]"

definition step_dict :: yaml where
  "step_dict = step_config_of ''trainer''
                 [(YStr ''materializers'', YDict [(YStr ''output'', YStr ''my_materializer'')])]"

definition step_list :: yaml where
  "step_list = step_config_of ''importer''
                 [(YStr ''materializers'', YList [YStr ''my_materializer''])]"

definition step_none :: yaml where
  "step_none = step_config_of ''importer'' [(YStr ''materializers'', YNone)]"

definition step_missing :: yaml where
  "step_missing = step_config_of ''no_such_step'' []"

definition step_uncallable :: yaml where
  "step_uncallable = step_config_of ''__name__'' []"

definition cfg1 :: yaml where
  "cfg1 = config_of ''my_pipeline''
            [(YStr ''importer'', step_plain), (YStr ''trainer'', step_str)]"

definition cfg2 :: yaml where
  "cfg2 = config_of ''no_such_pipeline'' [(YStr ''importer'', step_plain)]"










section \<open>Properties\<close>

lemma update_fresh:
  "k \<notin> fst ` set al \<Longrightarrow> AList.update k v al = al @ [(k, v)]"
  by (induction al) auto

lemma build_step_events:
  "e \<in> set (fst (build_step env m cfg)) \<Longrightarrow> \<not> is_pipeline_init e \<and> \<not> is_run e"
  by (auto simp: build_step_def split: sum.splits if_splits option.splits)

lemma steps_loop_events:
  "steps_loop env m entries acc = (ev, r) \<Longrightarrow> e \<in> set ev \<Longrightarrow>
     \<not> is_pipeline_init e \<and> \<not> is_run e"
proof (induction entries arbitrary: acc ev r)
  case Nil
  then show ?case by simp
next
  case (Cons a entries)
  obtain n cfg where a: "a = (n, cfg)" by (cases a)
  obtain ev1 r1 where b: "build_step env m cfg = (ev1, r1)" by (cases "build_step env m cfg")
  have evs: "\<And>x. x \<in> set ev1 \<Longrightarrow> \<not> is_pipeline_init x \<and> \<not> is_run x"
    using build_step_events[of _ env m cfg] b by simp
  show ?case
  proof (cases r1)
    case (Inl err)
    then show ?thesis using Cons.prems a b evs by simp
  next
    case (Inr inst)
    obtain ev' r' where l: "steps_loop env m entries (AList.update n inst acc) = (ev', r')"
      by (cases "steps_loop env m entries (AList.update n inst acc)")
    have "e \<in> set ev1 \<or> e \<in> set ev'" using Cons.prems a b Inr l by auto
    then show ?thesis using evs Cons.IH[OF l] by auto
  qed
qed

lemma step_source_dict:
  "step_source cfg = Some s \<Longrightarrow>
     \<exists>kvs. cfg = YDict kvs \<and> map_of kvs (YStr SOURCE) = Some (YStr s)"
  by (cases cfg) (auto simp: step_source_def split: option.splits yaml.splits)

lemma build_step_typed:
  assumes "step_key_check env cfg = None" and "step_source cfg = Some s"
  shows "build_step env m cfg =
     (case attrs m s of
        None \<Rightarrow> ([StepKeyCheck cfg],
                  Inl (PipelineConfigurationError (UnableToLoad s (module_file m))))
      | Some c \<Rightarrow>
          (case init_step env c of
             Some e \<Rightarrow> ([StepKeyCheck cfg, StepInit c], Inl e)
           | None \<Rightarrow>
               if truthy (step_materializers cfg) then
                 (case resolve_materializers m (step_materializers cfg) of
                    Inl e \<Rightarrow> ([StepKeyCheck cfg, StepInit c], Inl e)
                  | Inr ms \<Rightarrow>
                      ([StepKeyCheck cfg, StepInit c, WithReturnMaterializers (Instance c) ms],
                       case with_return_materializers env (Instance c) ms of
                         Some e \<Rightarrow> Inl e
                       | None \<Rightarrow> Inr (Materialized (Instance c) ms)))
               else ([StepKeyCheck cfg, StepInit c], Inr (Instance c))))"
proof -
  obtain kvs where c: "cfg = YDict kvs" and src: "map_of kvs (YStr SOURCE) = Some (YStr s)"
    using step_source_dict[OF assms(2)] by blast
  show ?thesis
    using assms(1) src unfolding c
    by (simp add: build_step_def step_materializers_def split: option.splits)
qed








lemma materializers_dict_some:
  assumes "list_all (\<lambda>kv. case snd kv of YStr s \<Rightarrow> has_attr m s | _ \<Rightarrow> False) kvs"
  shows "\<exists>vs. materializers_dict m kvs acc = Inr vs"
  using assms
proof (induction kvs arbitrary: acc)
  case Nil
  then show ?case by simp
next
  case (Cons a kvs)
  obtain k v where a: "a = (k, v)" by (cases a)
  from Cons.prems(1) a obtain s c where v: "v = YStr s" and c: "attrs m s = Some c"
    by (cases v) (auto simp: has_attr_def split: option.splits)
  show ?case using Cons.IH[of "AList.update k c acc"] Cons.prems a v c by simp
qed

lemma resolve_materializers_ok:
  assumes "materializers_resolve m mc" and "truthy mc"
  shows "\<exists>ms. resolve_materializers m mc = Inr ms"
proof (cases mc)
  case (YStr s)
  then show ?thesis using assms by (auto simp: has_attr_def split: option.splits)
next
  case (YDict kvs)
  then show ?thesis using assms materializers_dict_some[of m kvs "[]"] by auto
qed (use assms in auto)

lemma build_step_resolves:
  assumes "step_resolves env m cfg" and "step_calls_return env m cfg"
  shows "\<exists>ev st. build_step env m cfg = (ev, Inr st) \<and> expected_step m cfg = Some st \<and>
           step_class m cfg = Some (step_class_of st)"
proof -
  from assms(1) obtain s c where k: "step_key_check env cfg = None"
    and s: "step_source cfg = Some s"
    and c: "attrs m s = Some c" and r: "materializers_resolve m (step_materializers cfg)"
    by (auto simp: step_resolves_def has_attr_def split: option.splits)
  have i: "init_step env c = None"
    using assms(2) s c by (simp add: step_calls_return_def step_class_def)
  show ?thesis
  proof (cases "truthy (step_materializers cfg)")
    case True
    then obtain ms where ms: "resolve_materializers m (step_materializers cfg) = Inr ms"
      using resolve_materializers_ok[OF r] by blast
    have w: "with_return_materializers env (Instance c) ms = None"
      using assms(2) s c True ms
      by (simp add: step_calls_return_def step_class_def expected_step_def)
    show ?thesis using True s c i ms w build_step_typed[OF k s, of m]
      by (simp add: expected_step_def step_class_def)
  next
    case False
    then show ?thesis using s c i build_step_typed[OF k s, of m]
      by (simp add: expected_step_def step_class_def)
  qed
qed


lemma steps_loop_resolves:
  assumes "list_all (\<lambda>kv. step_resolves env m (snd kv)) entries"
    and "list_all (\<lambda>kv. step_calls_return env m (snd kv)) entries"
    and "distinct (map fst entries)" and "fst ` set entries \<inter> fst ` set acc = {}"
  shows "\<exists>ev. steps_loop env m entries acc =
                (ev, Inr (acc @ map (\<lambda>kv. (fst kv, the (expected_step m (snd kv)))) entries))"
  using assms
proof (induction entries arbitrary: acc)
  case Nil
  then show ?case by simp
next
  case (Cons a entries)
  obtain n cfg where a: "a = (n, cfg)" by (cases a)
  have r: "step_resolves env m cfg" and q: "step_calls_return env m cfg"
    using Cons.prems(1,2) a by auto
  from build_step_resolves[OF r q] obtain ev1 st
    where b: "build_step env m cfg = (ev1, Inr st)" and x: "expected_step m cfg = Some st"
    by auto
  have fresh: "n \<notin> fst ` set acc" using Cons.prems(4) a by auto
  have upd: "AList.update n st acc = acc @ [(n, st)]" using update_fresh[OF fresh] .
  have disj: "fst ` set entries \<inter> fst ` set (acc @ [(n, st)]) = {}"
    using Cons.prems(3,4) a by auto
  from Cons.IH[OF _ _ _ disj] Cons.prems(1,2,3)
  obtain ev2 where l: "steps_loop env m entries (acc @ [(n, st)]) =
      (ev2, Inr ((acc @ [(n, st)]) @ map (\<lambda>kv. (fst kv, the (expected_step m (snd kv)))) entries))"
    by auto
  have "steps_loop env m (a # entries) acc =
          (ev1 @ ev2, Inr (acc @ map (\<lambda>kv. (fst kv, the (expected_step m (snd kv)))) (a # entries)))"
    using a b upd l x by simp
  then show ?case by blast
qed



lemma keyword_arguments_expected:
  assumes "list_all (\<lambda>kv. is_str (fst kv)) entries"
  shows "keyword_arguments (map (\<lambda>kv. (fst kv, the (expected_step m (snd kv)))) entries) =
           Inr (expected_keywords m entries)"
  using assms
  by (simp add: keyword_arguments_def expected_keywords_def list_all_iff comp_def)

lemma config_name_getitem:
  "config_name config = Some n \<Longrightarrow> getitem config NAME = Inr (YStr n)"
  by (auto simp: config_name_def split: sum.splits yaml.splits)

lemma config_steps_getitem:
  "config_steps config = Some entries \<Longrightarrow> getitem config STEPS = Inr (YDict entries)"
  by (auto simp: config_steps_def split: sum.splits yaml.splits)

lemma run_pipeline_typed:
  assumes "import_python_file env pf = Inr m" and "read_yaml env cp = Inr config"
    and "pipeline_key_check env config = None"
    and "config_name config = Some n"
    and "config_steps config = Some entries"
  shows "run_pipeline env pf cp =
     (case attrs m n of
        None \<Rightarrow> ([ImportPythonFile pf, ReadYaml cp, PipelineKeyCheck config],
                  Inl (PipelineConfigurationError (UnableToLoad n (module_file m))))
      | Some pipeline_class \<Rightarrow>
          (case steps_loop env m entries [] of
             (ev1, Inl e) \<Rightarrow>
               ([ImportPythonFile pf, ReadYaml cp, PipelineKeyCheck config] @ ev1, Inl e)
           | (ev1, Inr steps) \<Rightarrow>
               (case construct_and_run env pipeline_class (YStr n) steps cp of
                  (ev2, r) \<Rightarrow>
                    ([ImportPythonFile pf, ReadYaml cp, PipelineKeyCheck config] @ ev1 @ ev2,
                     r))))"
  using assms(1,2,3) config_name_getitem[OF assms(4)] config_steps_getitem[OF assms(5)]
  by (simp add: run_pipeline_def Let_def split: option.splits prod.splits sum.splits)

lemmas example_defs =
  example_env_def example_module_def config_of_def step_config_of_def
  NAME_def STEPS_def SOURCE_def MATERIALIZERS_def
  config_name_def config_steps_def step_source_def step_materializers_def has_attr_def
  step_resolves_def well_typed_step_def well_typed_config_def config_resolves_def
  step_plain_def step_str_def step_dict_def step_list_def step_none_def step_missing_def
  step_uncallable_def step_class_def expected_step_def expected_keywords_def
  step_calls_return_def

lemma construct_and_run_ok:
  assumes "keyword_arguments steps = Inr kw" and "init_pipeline env pc kw = None"
    and "with_config env (PipelineInstance pc kw) cp True = None"
  shows "construct_and_run env pc n steps cp =
     ([PipelineInit pc kw, WithConfig (PipelineInstance pc kw) cp True, LoggerDebug n,
       Run (Configured (PipelineInstance pc kw) cp True) None],
      case run env (Configured (PipelineInstance pc kw) cp True) None of
        Some e \<Rightarrow> Inl e | None \<Rightarrow> Inr ())"
  using assms by (simp add: construct_and_run_def)

lemma expected_keywords_classes:
  assumes "list_all (\<lambda>kv. step_resolves env m (snd kv)) entries"
    and "list_all (\<lambda>kv. step_calls_return env m (snd kv)) entries"
  shows "map (\<lambda>kv. (fst kv, Some (step_class_of (snd kv)))) (expected_keywords m entries) =
         map (\<lambda>kv. (str_of (fst kv), step_class m (snd kv))) entries"
  using assms
proof (induction entries)
  case Nil
  then show ?case by (simp add: expected_keywords_def)
next
  case (Cons a entries)
  have r: "step_resolves env m (snd a)" and q: "step_calls_return env m (snd a)"
    using Cons.prems by auto
  from build_step_resolves[OF r q] obtain st where "expected_step m (snd a) = Some st"
    and "step_class m (snd a) = Some (step_class_of st)" by auto
  then show ?case using Cons by (simp add: expected_keywords_def)
qed

text \<open>
  C1 (amended). When the Python file is imported, for every configuration that is read
  from the given path, passes the
  pipeline and step key checks and resolves in the imported module (the steps are a
  mapping with distinct strings as keys; the pipeline name, every step's source and every
  materializer name is a string naming a module attribute; every materializers value is
  falsy, a string or a mapping), and for which the calls on the user's code return (each
  step class, \<^verbatim>\<open>with_return_materializers\<close>, the pipeline class on the step mapping,
  \<^verbatim>\<open>with_config\<close>), \<^verbatim>\<open>run_pipeline\<close> builds for each entry of the steps mapping, in
  order and under the entry's key, a step instance of the class its source names (handed
  through \<^verbatim>\<open>with_return_materializers\<close> when the entry has materializers), passes
  that mapping as keyword arguments to the class the configured name stands for,
  configures the pipeline from the same configuration path with
  \<^verbatim>\<open>overwrite_step_parameters=True\<close>, and calls \<^verbatim>\<open>run()\<close> on the configured pipeline
  last, ending as \<^verbatim>\<open>run()\<close> ends; one pipeline is constructed and \<^verbatim>\<open>run()\<close> is called
  once.
\<close>

theorem run_pipeline_resolved:
  assumes "import_python_file env python_file = Inr module"
    and "read_yaml env config_path = Inr config"
    and "config_resolves env module config"
    and "config_name config = Some name"
    and "attrs module name = Some pipeline_class"
    and "config_steps config = Some entries"
    and "list_all (\<lambda>kv. step_calls_return env module (snd kv)) entries"
    and "init_pipeline env pipeline_class (expected_keywords module entries) = None"
    and "with_config env (PipelineInstance pipeline_class (expected_keywords module entries))
           config_path True = None"
  shows "(\<exists>ev. run_pipeline env python_file config_path =
            ([ImportPythonFile python_file, ReadYaml config_path, PipelineKeyCheck config] @ ev @
             [PipelineInit pipeline_class (expected_keywords module entries),
              WithConfig (PipelineInstance pipeline_class (expected_keywords module entries))
                config_path True,
              LoggerDebug (YStr name),
              Run (Configured (PipelineInstance pipeline_class (expected_keywords module entries))
                     config_path True) None],
             case run env (Configured (PipelineInstance pipeline_class
                                         (expected_keywords module entries)) config_path True) None of
               Some e \<Rightarrow> Inl e
             | None \<Rightarrow> Inr ())) \<and>
         map (\<lambda>kv. (fst kv, Some (step_class_of (snd kv)))) (expected_keywords module entries) =
           map (\<lambda>kv. (str_of (fst kv), step_class module (snd kv))) entries \<and>
         length (filter is_pipeline_init (fst (run_pipeline env python_file config_path))) = 1 \<and>
         length (filter is_run (fst (run_pipeline env python_file config_path))) = 1"
proof -
  let ?kw = "expected_keywords module entries"
  from assms(3,6) have k: "pipeline_key_check env config = None"
    and d: "distinct (map fst entries)"
    and str: "list_all (\<lambda>kv. is_str (fst kv)) entries"
    and r: "list_all (\<lambda>kv. step_resolves env module (snd kv)) entries"
    by (auto simp: config_resolves_def split: option.splits)
  from steps_loop_resolves[OF r assms(7) d, of "[]"]
  obtain ev where l: "steps_loop env module entries [] =
       (ev, Inr (map (\<lambda>kv. (fst kv, the (expected_step module (snd kv)))) entries))"
    by auto
  have evs: "\<forall>e \<in> set ev. \<not> is_pipeline_init e \<and> \<not> is_run e"
    using steps_loop_events[OF l] by blast
  have c: "construct_and_run env pipeline_class (YStr name)
             (map (\<lambda>kv. (fst kv, the (expected_step module (snd kv)))) entries) config_path =
     ([PipelineInit pipeline_class ?kw, WithConfig (PipelineInstance pipeline_class ?kw) config_path True,
       LoggerDebug (YStr name),
       Run (Configured (PipelineInstance pipeline_class ?kw) config_path True) None],
      case run env (Configured (PipelineInstance pipeline_class ?kw) config_path True) None of
        Some e \<Rightarrow> Inl e | None \<Rightarrow> Inr ())"
    using construct_and_run_ok[OF keyword_arguments_expected[OF str] assms(8,9)] .
  have run: "run_pipeline env python_file config_path =
            ([ImportPythonFile python_file, ReadYaml config_path, PipelineKeyCheck config] @ ev @
             [PipelineInit pipeline_class ?kw,
              WithConfig (PipelineInstance pipeline_class ?kw) config_path True,
              LoggerDebug (YStr name),
              Run (Configured (PipelineInstance pipeline_class ?kw) config_path True) None],
             case run env (Configured (PipelineInstance pipeline_class ?kw) config_path True) None of
               Some e \<Rightarrow> Inl e
             | None \<Rightarrow> Inr ())"
    unfolding run_pipeline_typed[OF assms(1,2) k assms(4,6)] using assms(5) l c by simp
  have f1: "filter is_pipeline_init ev = []" and f2: "filter is_run ev = []"
    using evs by (auto simp: filter_empty_conv)
  have n1: "length (filter is_pipeline_init (fst (run_pipeline env python_file config_path))) = 1"
    unfolding run using f1 by simp
  have n2: "length (filter is_run (fst (run_pipeline env python_file config_path))) = 1"
    unfolding run using f2 by simp
  show ?thesis using run expected_keywords_classes[OF r assms(7)] n1 n2 by blast
qed

theorem run_pipeline_resolved_witness:
  "config_resolves (example_env cfg1) example_module cfg1 \<and>
   length (filter is_pipeline_init
             (fst (run_pipeline (example_env cfg1) ''pipelines.py'' ''config.yaml''))) = 1 \<and>
   length (filter is_run
             (fst (run_pipeline (example_env cfg1) ''pipelines.py'' ''config.yaml''))) = 1"
proof -
  let ?E = "example_env cfg1"
  let ?entries = "[(YStr ''importer'', step_plain), (YStr ''trainer'', step_str)]"
  have h1: "import_python_file ?E ''pipelines.py'' = Inr example_module"
    and h2: "read_yaml ?E ''config.yaml'' = Inr cfg1"
    by (simp_all add: example_env_def)
  have h3: "config_resolves ?E example_module cfg1"
    by (simp add: example_defs cfg1_def)
  have h4: "config_name cfg1 = Some ''my_pipeline''"
    and h6: "config_steps cfg1 = Some ?entries"
    by (simp_all add: example_defs cfg1_def)
  have h5: "attrs example_module ''my_pipeline'' = Some ''class my_pipeline''"
    by (simp add: example_defs)
  have h7: "list_all (\<lambda>kv. step_calls_return ?E example_module (snd kv)) ?entries"
    by (simp add: example_defs)
  have h8: "init_pipeline ?E ''class my_pipeline'' (expected_keywords example_module ?entries) = None"
    and h9: "with_config ?E (PipelineInstance ''class my_pipeline''
               (expected_keywords example_module ?entries)) ''config.yaml'' True = None"
    by (simp_all add: example_env_def)
  show ?thesis using h3 run_pipeline_resolved[OF h1 h2 h3 h4 h5 h6 h7 h8 h9] by blast
qed

text \<open>
  C1 as stated fails: a configuration that passes the pipeline and step key checks but
  whose pipeline name is no attribute of the module ends in
  \<^verbatim>\<open>PipelineConfigurationError\<close>, and \<^verbatim>\<open>run()\<close> is never called.
\<close>

theorem run_pipeline_counterexample:
  "import_python_file (example_env cfg2) ''pipelines.py'' = Inr example_module \<and>
   read_yaml (example_env cfg2) ''config.yaml'' = Inr cfg2 \<and>
   pipeline_key_check (example_env cfg2) cfg2 = None \<and>
   config_steps cfg2 = Some [(YStr ''importer'', step_plain)] \<and>
   step_key_check (example_env cfg2) step_plain = None \<and>
   run_pipeline (example_env cfg2) ''pipelines.py'' ''config.yaml'' =
     ([ImportPythonFile ''pipelines.py'', ReadYaml ''config.yaml'', PipelineKeyCheck cfg2],
      Inl (PipelineConfigurationError
             (UnableToLoad ''no_such_pipeline'' ''/home/user/pipelines.py''))) \<and>
   filter is_run (fst (run_pipeline (example_env cfg2) ''pipelines.py'' ''config.yaml'')) = []"
  by (simp add: run_pipeline_def example_defs cfg2_def)




































end
